theory Spec2Isabelle
  imports Complex_Main
begin

section \<open>Python strings\<close>

text \<open>
  A Python \<open>str\<close> is a sequence of Unicode code points; the icons and bullets of
  \<open>main.py\<close> lie outside ASCII, so a string is a list of code points here. \<open>lit\<close>
  turns an ASCII literal into such a list.
\<close>

type_synonym pystr = "nat list"

definition lit :: "string \<Rightarrow> pystr" where
  "lit cs = map of_char cs"

text \<open>
  A Python \<open>float\<close> is an IEEE double: \<open>Fin neg m k\<close> is the finite value
  \<open>(-1)^neg * m / 2^k\<close> (every finite double has this form, and \<open>Fin True 0 0\<close> is
  the negative zero), \<open>Inf neg\<close> an infinity and \<open>NaN\<close> a not-a-number.
\<close>

datatype pyfloat = Fin bool nat nat | Inf bool | NaN

datatype exn =
    HTTPError int
  | RequestException
  | JSONDecodeError
  | KeyError
  | IndexError
  | TypeError
  | AttributeError
  | ValueError
  | OverflowError
  | TelegramError

text \<open>
  What the Python runtime supplies and \<open>main.py\<close> only calls: the case mappings of
  the Unicode database outside ASCII (\<open>uc_lower\<close> sees the code points on both sides of
  the one it maps, as the final-sigma rule of \<open>str.lower\<close> needs them), the shortest
  round-trip \<open>repr\<close> of a float, the \<open>repr\<close> of a string, and the conversions of a
  float number of seconds to microseconds that \<open>timedelta\<close> and
  \<open>datetime.fromtimestamp\<close> compute in double arithmetic. Every theorem below holds
  for all such runtimes.
\<close>

record pyrt =
  uc_lower :: "pystr \<Rightarrow> nat \<Rightarrow> pystr \<Rightarrow> pystr"
  uc_title :: "nat \<Rightarrow> pystr"
  uc_cased :: "nat \<Rightarrow> bool"
  float_repr :: "pyfloat \<Rightarrow> pystr"
  str_repr :: "pystr \<Rightarrow> pystr"
  timedelta_micros :: "pyfloat \<Rightarrow> exn + int"
  timestamp_micros :: "pyfloat \<Rightarrow> exn + int"

definition ascii_lower :: "nat \<Rightarrow> nat" where
  "ascii_lower c = (if 65 \<le> c \<and> c \<le> 90 then c + 32 else c)"

definition ascii_upper :: "nat \<Rightarrow> nat" where
  "ascii_upper c = (if 97 \<le> c \<and> c \<le> 122 then c - 32 else c)"

definition ascii_alpha :: "nat \<Rightarrow> bool" where
  "ascii_alpha c = ((65 \<le> c \<and> c \<le> 90) \<or> (97 \<le> c \<and> c \<le> 122))"

definition lower_cp :: "pyrt \<Rightarrow> pystr \<Rightarrow> nat \<Rightarrow> pystr \<Rightarrow> pystr" where
  "lower_cp rt pre c post =
     (if c < 128 then [ascii_lower c] else uc_lower rt pre c post)"

text \<open>\<open>str.lower()\<close>: every code point is mapped in its context.\<close>

fun lower_from :: "pyrt \<Rightarrow> pystr \<Rightarrow> pystr \<Rightarrow> pystr" where
  "lower_from rt pre [] = []"
| "lower_from rt pre (c # cs) = lower_cp rt pre c cs @ lower_from rt (pre @ [c]) cs"

definition lower :: "pyrt \<Rightarrow> pystr \<Rightarrow> pystr" where
  "lower rt cs = lower_from rt [] cs"

definition is_cased :: "pyrt \<Rightarrow> nat \<Rightarrow> bool" where
  "is_cased rt c = (if c < 128 then ascii_alpha c else uc_cased rt c)"

definition title_cp :: "pyrt \<Rightarrow> nat \<Rightarrow> pystr" where
  "title_cp rt c = (if c < 128 then [ascii_upper c] else uc_title rt c)"

text \<open>
  \<open>str.title()\<close>: a code point that follows a cased one is lowered, any other one is
  title-cased.
\<close>

fun title_from :: "pyrt \<Rightarrow> bool \<Rightarrow> pystr \<Rightarrow> pystr \<Rightarrow> pystr" where
  "title_from rt prev pre [] = []"
| "title_from rt prev pre (c # cs) =
     (if prev then lower_cp rt pre c cs else title_cp rt c)
     @ title_from rt (is_cased rt c) (pre @ [c]) cs"

definition title :: "pyrt \<Rightarrow> pystr \<Rightarrow> pystr" where
  "title rt cs = title_from rt False [] cs"

text \<open>The operator \<open>sub in s\<close> on strings.\<close>

fun starts_with :: "pystr \<Rightarrow> pystr \<Rightarrow> bool" where
  "starts_with [] cs = True"
| "starts_with (p # ps) [] = False"
| "starts_with (p # ps) (c # cs) = (p = c \<and> starts_with ps cs)"

fun contains :: "pystr \<Rightarrow> pystr \<Rightarrow> bool" where
  "contains sub [] = (sub = [])"
| "contains sub (c # cs) = (starts_with sub (c # cs) \<or> contains sub cs)"

text \<open>\<open>sep.join(parts)\<close>.\<close>

fun join :: "pystr \<Rightarrow> pystr list \<Rightarrow> pystr" where
  "join sep [] = []"
| "join sep [x] = x"
| "join sep (x # y # ys) = x @ sep @ join sep (y # ys)"

section \<open>The icon of a weather category\<close>

definition icon_thunder :: pystr where "icon_thunder = [0x26C8, 0xFE0F]"
definition icon_drizzle :: pystr where "icon_drizzle = [0x1F326, 0xFE0F]"
definition icon_rain :: pystr where "icon_rain = [0x1F327, 0xFE0F]"
definition icon_snow :: pystr where "icon_snow = [0x2744, 0xFE0F]"
definition icon_clear :: pystr where "icon_clear = [0x2600, 0xFE0F]"
definition icon_cloud :: pystr where "icon_cloud = [0x2601, 0xFE0F]"
definition icon_mist :: pystr where "icon_mist = [0x1F32B, 0xFE0F]"
definition icon_other :: pystr where "icon_other = [0x1F321, 0xFE0F]"

text \<open>\<open>icon_for\<close> of \<open>main.py\<close>, on its declared argument type \<open>str\<close>.\<close>

definition icon_for :: "pyrt \<Rightarrow> pystr \<Rightarrow> pystr" where
  "icon_for rt condition =
     (let c = lower rt condition in
      if contains (lit ''thunder'') c then icon_thunder
      else if contains (lit ''drizzle'') c then icon_drizzle
      else if contains (lit ''rain'') c then icon_rain
      else if contains (lit ''snow'') c then icon_snow
      else if contains (lit ''clear'') c then icon_clear
      else if contains (lit ''cloud'') c then icon_cloud
      else if contains (lit ''mist'') c \<or> contains (lit ''fog'') c
              \<or> contains (lit ''haze'') c \<or> contains (lit ''smoke'') c then icon_mist
      else icon_other)"

text \<open>
  The table as the specification words it: an ordered list of rules, each a set of
  keywords and an icon; the first rule with a keyword occurring in the lowered category
  wins, and the thermometer is the fallback.
\<close>

definition icon_table :: "(pystr list \<times> pystr) list" where
  "icon_table =
     [([lit ''thunder''], icon_thunder),
      ([lit ''drizzle''], icon_drizzle),
      ([lit ''rain''], icon_rain),
      ([lit ''snow''], icon_snow),
      ([lit ''clear''], icon_clear),
      ([lit ''cloud''], icon_cloud),
      ([lit ''mist'', lit ''fog'', lit ''haze'', lit ''smoke''], icon_mist)]"

fun first_match :: "(pystr list \<times> pystr) list \<Rightarrow> pystr \<Rightarrow> pystr" where
  "first_match [] c = icon_other"
| "first_match ((kws, icon) # rules) c =
     (if list_ex (\<lambda>kw. contains kw c) kws then icon else first_match rules c)"

definition icon_lookup :: "pyrt \<Rightarrow> pystr \<Rightarrow> pystr" where
  "icon_lookup rt category = first_match icon_table (lower rt category)"

text \<open>
  A string contains a keyword "in any case" when one of its segments is the keyword up
  to the case of its ASCII letters.
\<close>

definition contains_any_case :: "pystr \<Rightarrow> pystr \<Rightarrow> bool" where
  "contains_any_case kw cs =
     (\<exists>p t q. cs = p @ t @ q \<and> list_all (\<lambda>c. c < 128) t \<and> map ascii_lower t = kw)"

section \<open>JSON values and the Python operations on them\<close>

text \<open>
  What \<open>r.json()\<close> returns. A \<open>JDict\<close> lists the items of the dictionary in
  their order; a key is looked up with \<open>map_of\<close>.
\<close>

datatype json =
    JNull
  | JBool bool
  | JInt int
  | JFloat pyfloat
  | JStr pystr
  | JList "json list"
  | JDict "(pystr \<times> json) list"

text \<open>A raised exception is the left summand; \<open>bind\<close> sequences two steps.\<close>

definition bind :: "exn + 'a \<Rightarrow> ('a \<Rightarrow> exn + 'b) \<Rightarrow> exn + 'b" where
  "bind m f = (case m of Inl e \<Rightarrow> Inl e | Inr x \<Rightarrow> f x)"

text \<open>\<open>d.get(key, default)\<close>; only a dictionary has the method.\<close>

fun py_get :: "json \<Rightarrow> pystr \<Rightarrow> json \<Rightarrow> exn + json" where
  "py_get (JDict kvs) key dflt = (case map_of kvs key of None \<Rightarrow> Inr dflt | Some v \<Rightarrow> Inr v)"
| "py_get _ key dflt = Inl AttributeError"

text \<open>\<open>d[key]\<close> for a string key.\<close>

fun py_item :: "json \<Rightarrow> pystr \<Rightarrow> exn + json" where
  "py_item (JDict kvs) key = (case map_of kvs key of None \<Rightarrow> Inl KeyError | Some v \<Rightarrow> Inr v)"
| "py_item _ key = Inl TypeError"

text \<open>\<open>v[0]\<close>; the keys of a parsed JSON object are strings, so \<open>0\<close> is none of them.\<close>

fun py_item0 :: "json \<Rightarrow> exn + json" where
  "py_item0 (JList []) = Inl IndexError"
| "py_item0 (JList (x # xs)) = Inr x"
| "py_item0 (JStr []) = Inl IndexError"
| "py_item0 (JStr (c # cs)) = Inr (JStr [c])"
| "py_item0 (JDict kvs) = Inl KeyError"
| "py_item0 _ = Inl TypeError"

text \<open>The truth value of \<open>if v\<close>.\<close>

fun truthy :: "json \<Rightarrow> bool" where
  "truthy JNull = False"
| "truthy (JBool b) = b"
| "truthy (JInt n) = (n \<noteq> 0)"
| "truthy (JFloat (Fin neg m k)) = (m \<noteq> 0)"
| "truthy (JFloat _) = True"
| "truthy (JStr cs) = (cs \<noteq> [])"
| "truthy (JList xs) = (xs \<noteq> [])"
| "truthy (JDict kvs) = (kvs \<noteq> [])"

fun show_nat :: "nat \<Rightarrow> pystr" where
  "show_nat n = (if n < 10 then [48 + n] else show_nat (n div 10) @ [48 + n mod 10])"

declare show_nat.simps [simp del]

definition show_int :: "int \<Rightarrow> pystr" where
  "show_int n = (if n < 0 then lit ''-'' @ show_nat (nat (- n)) else show_nat (nat n))"

text \<open>\<open>repr(v)\<close>, and \<open>str(v)\<close>, which is what an f-string field without a format
  specification inserts.\<close>

fun py_repr :: "pyrt \<Rightarrow> json \<Rightarrow> pystr" where
  "py_repr rt JNull = lit ''None''"
| "py_repr rt (JBool b) = (if b then lit ''True'' else lit ''False'')"
| "py_repr rt (JInt n) = show_int n"
| "py_repr rt (JFloat f) = float_repr rt f"
| "py_repr rt (JStr cs) = str_repr rt cs"
| "py_repr rt (JList xs) = lit ''['' @ join (lit '', '') (map (py_repr rt) xs) @ lit '']''"
| "py_repr rt (JDict kvs) =
     lit ''{'' @ join (lit '', '')
        (map (\<lambda>kv. str_repr rt (fst kv) @ lit '': '' @ py_repr rt (snd kv)) kvs) @ lit ''}''"

definition py_str :: "pyrt \<Rightarrow> json \<Rightarrow> pystr" where
  "py_str rt v = (case v of JStr cs \<Rightarrow> cs | _ \<Rightarrow> py_repr rt v)"

text \<open>The method calls \<open>v.lower()\<close> inside \<open>icon_for\<close> and \<open>v.title()\<close>: only a
  string has them.\<close>

definition call_icon_for :: "pyrt \<Rightarrow> json \<Rightarrow> exn + pystr" where
  "call_icon_for rt v = (case v of JStr cs \<Rightarrow> Inr (icon_for rt cs) | _ \<Rightarrow> Inl AttributeError)"

definition py_title :: "pyrt \<Rightarrow> json \<Rightarrow> exn + pystr" where
  "py_title rt v = (case v of JStr cs \<Rightarrow> Inr (title rt cs) | _ \<Rightarrow> Inl AttributeError)"

section \<open>Fixed-point formatting of numbers\<close>

text \<open>\<open>a / b\<close> rounded to the nearest integer, a tie to the even one.\<close>

definition round_half_even :: "nat \<Rightarrow> nat \<Rightarrow> nat" where
  "round_half_even a b =
     (let q = a div b; r = a mod b in
      if 2 * r < b then q
      else if b < 2 * r then q + 1
      else if even q then q else q + 1)"

definition zero_pad :: "nat \<Rightarrow> pystr \<Rightarrow> pystr" where
  "zero_pad w cs = replicate (w - length cs) 48 @ cs"

text \<open>\<open>format(x, '.<p>f')\<close> for a float: the exact value is rounded correctly.\<close>

fun format_fixed :: "nat \<Rightarrow> pyfloat \<Rightarrow> pystr" where
  "format_fixed p NaN = lit ''nan''"
| "format_fixed p (Inf neg) = (if neg then lit ''-inf'' else lit ''inf'')"
| "format_fixed p (Fin neg m k) =
     (let n = round_half_even (m * 10 ^ p) (2 ^ k) in
      (if neg then lit ''-'' else []) @ show_nat (n div 10 ^ p)
      @ (if p = 0 then [] else lit ''.'' @ zero_pad p (show_nat (n mod 10 ^ p))))"

fun bitlen :: "nat \<Rightarrow> nat" where
  "bitlen n = (if n = 0 then 0 else Suc (bitlen (n div 2)))"

declare bitlen.simps [simp del]

text \<open>\<open>float(n)\<close>: the nearest double, \<open>OverflowError\<close> beyond the largest one.\<close>

definition float_of_int :: "int \<Rightarrow> exn + pyfloat" where
  "float_of_int n =
     (let a = nat \<bar>n\<bar> in
      if a < 2 ^ 53 then Inr (Fin (n < 0) a 0)
      else let e = bitlen a - 53; v = round_half_even a (2 ^ e) * 2 ^ e in
           if 2 ^ 1024 \<le> v then Inl OverflowError else Inr (Fin (n < 0) v 0))"

text \<open>The f-string field \<open>{v:.<p>f}\<close>.\<close>

fun py_format_f :: "nat \<Rightarrow> json \<Rightarrow> exn + pystr" where
  "py_format_f p (JFloat f) = Inr (format_fixed p f)"
| "py_format_f p (JInt n) = bind (float_of_int n) (\<lambda>f. Inr (format_fixed p f))"
| "py_format_f p (JBool b) = Inr (format_fixed p (Fin False (if b then 1 else 0) 0))"
| "py_format_f p (JStr cs) = Inl ValueError"
| "py_format_f p _ = Inl TypeError"

section \<open>Rendering a time\<close>

text \<open>A number of seconds as microseconds, for \<open>timedelta(seconds=v)\<close> and
  \<open>datetime.fromtimestamp(v)\<close>.\<close>

fun seconds_micros :: "(pyfloat \<Rightarrow> exn + int) \<Rightarrow> json \<Rightarrow> exn + int" where
  "seconds_micros conv (JInt n) = Inr (n * 1000000)"
| "seconds_micros conv (JBool b) = Inr (if b then 1000000 else 0)"
| "seconds_micros conv (JFloat f) = conv f"
| "seconds_micros conv _ = Inl TypeError"

text \<open>The proleptic Gregorian date of a day number counted from 1970-01-01.\<close>

definition civil_from_days :: "int \<Rightarrow> int \<times> int \<times> int" where
  "civil_from_days z0 =
     (let z = z0 + 719468;
          era = z div 146097;
          doe = z mod 146097;
          yoe = (doe - doe div 1460 + doe div 36524 - doe div 146096) div 365;
          doy = doe - (365 * yoe + yoe div 4 - yoe div 100);
          mp = (5 * doy + 2) div 153;
          d = doy - (153 * mp + 2) div 5 + 1;
          m = (if mp < 10 then mp + 3 else mp - 9);
          y = yoe + era * 400 + (if m \<le> 2 then 1 else 0)
      in (y, m, d))"

definition weekday_names :: "pystr list" where
  "weekday_names = map lit [''Mon'', ''Tue'', ''Wed'', ''Thu'', ''Fri'', ''Sat'', ''Sun'']"

definition month_names :: "pystr list" where
  "month_names = map lit [''Jan'', ''Feb'', ''Mar'', ''Apr'', ''May'', ''Jun'',
                          ''Jul'', ''Aug'', ''Sep'', ''Oct'', ''Nov'', ''Dec'']"

definition two_digits :: "int \<Rightarrow> pystr" where
  "two_digits n = zero_pad 2 (show_nat (nat n))"

text \<open>\<open>strftime("%a %d %b %H:%M")\<close> of the wall-clock time that lies \<open>us\<close>
  microseconds past 1970-01-01 00:00.\<close>

definition strftime :: "int \<Rightarrow> pystr" where
  "strftime us =
     (let secs = us div 1000000;
          days = secs div 86400;
          sod = secs mod 86400;
          (y, m, d) = civil_from_days days
      in weekday_names ! nat ((days + 3) mod 7) @ lit '' '' @ two_digits d @ lit '' ''
         @ month_names ! nat (m - 1) @ lit '' ''
         @ two_digits (sod div 3600) @ lit '':'' @ two_digits (sod mod 3600 div 60))"

text \<open>The microseconds of 0001-01-01 00:00 and of 10000-01-01 00:00, between which a
  \<open>datetime\<close> lies.\<close>

definition min_micros :: int where "min_micros = - 62135596800 * 1000000"
definition max_micros :: int where "max_micros = 253402300800 * 1000000"

definition day_micros :: int where "day_micros = 86400 * 1000000"

text \<open>
  \<open>fmt_time\<close> of \<open>main.py\<close>. \<open>timedelta\<close> refuses more than 999999999 days,
  \<open>timezone\<close> an offset that is not strictly within a day, \<open>fromtimestamp\<close> an
  instant whose UTC or local date leaves the years 1 to 9999.
\<close>

definition fmt_time :: "pyrt \<Rightarrow> json \<Rightarrow> json \<Rightarrow> exn + pystr" where
  "fmt_time rt ts tz_offset_seconds =
     bind (seconds_micros (timedelta_micros rt) tz_offset_seconds) (\<lambda>off.
       if 999999999 < \<bar>off div day_micros\<bar> then Inl OverflowError
       else if \<not> (- day_micros < off \<and> off < day_micros) then Inl ValueError
       else bind (seconds_micros (timestamp_micros rt) ts) (\<lambda>utc.
         if \<not> (min_micros \<le> utc \<and> utc < max_micros) then Inl ValueError
         else if \<not> (min_micros \<le> utc + off \<and> utc + off < max_micros) then Inl OverflowError
         else Inr (strftime (utc + off))))"

section \<open>The two message texts\<close>

text \<open>The f-string field \<open>{', ' + country if country else ''}\<close>.\<close>

definition country_suffix :: "json \<Rightarrow> exn + pystr" where
  "country_suffix country =
     (if truthy country
      then (case country of JStr cs \<Rightarrow> Inr (lit '', '' @ cs) | _ \<Rightarrow> Inl TypeError)
      else Inr [])"

text \<open>\<open>fmt_time(x, tz_offset) if x else "N/A"\<close>.\<close>

definition time_or_na :: "pyrt \<Rightarrow> json \<Rightarrow> json \<Rightarrow> exn + pystr" where
  "time_or_na rt x tz_offset = (if truthy x then fmt_time rt x tz_offset else Inr (lit ''N/A''))"

definition bullet :: pystr where "bullet = [0x2022]"
definition degree :: pystr where "degree = [0xB0]"
definition newline :: pystr where "newline = [10]"

definition format_current_weather :: "pyrt \<Rightarrow> json \<Rightarrow> exn + pystr" where
  "format_current_weather rt data =
     bind (py_get data (lit ''name'') (JStr (lit ''Your location''))) (\<lambda>name.
     bind (py_get data (lit ''sys'') (JDict [])) (\<lambda>sys.
     bind (py_get sys (lit ''country'') (JStr [])) (\<lambda>country.
     bind (bind (py_item data (lit ''weather'')) py_item0) (\<lambda>weather.
     bind (py_item data (lit ''main'')) (\<lambda>main.
     bind (py_get data (lit ''wind'') (JDict [])) (\<lambda>wind.
     bind (bind (py_item weather (lit ''main'')) (call_icon_for rt)) (\<lambda>icon.
     bind (py_get data (lit ''timezone'') (JInt 0)) (\<lambda>tz_offset.
     bind (py_get sys (lit ''sunrise'') JNull) (\<lambda>sunrise.
     bind (py_get sys (lit ''sunset'') JNull) (\<lambda>sunset.
     bind (time_or_na rt sunrise tz_offset) (\<lambda>sunrise_str.
     bind (time_or_na rt sunset tz_offset) (\<lambda>sunset_str.
     bind (country_suffix country) (\<lambda>suffix.
     bind (bind (py_item weather (lit ''description'')) (py_title rt)) (\<lambda>description.
     bind (bind (py_item main (lit ''temp'')) (py_format_f 1)) (\<lambda>temp.
     bind (bind (py_item main (lit ''feels_like'')) (py_format_f 1)) (\<lambda>feels_like.
     bind (py_item main (lit ''humidity'')) (\<lambda>humidity.
     bind (py_item main (lit ''pressure'')) (\<lambda>pressure.
     bind (py_get wind (lit ''speed'') (JInt 0)) (\<lambda>speed.
     Inr (join newline
       [icon @ lit '' *Current weather in '' @ py_str rt name @ suffix @ lit ''*'',
        bullet @ lit '' '' @ description,
        bullet @ lit '' Temp: '' @ temp @ degree @ lit ''C (feels '' @ feels_like
          @ degree @ lit ''C)'',
        bullet @ lit '' Humidity: '' @ py_str rt humidity @ lit ''%  '' @ bullet
          @ lit '' Pressure: '' @ py_str rt pressure @ lit '' hPa'',
        bullet @ lit '' Wind: '' @ py_str rt speed @ lit '' m/s'',
        bullet @ lit '' Sunrise: '' @ sunrise_str @ lit ''  '' @ bullet
          @ lit '' Sunset: '' @ sunset_str]))))))))))))))))))))"

text \<open>The slice \<open>v[:12]\<close>, as the list of values the \<open>for\<close> loop then visits: a
  string is visited character by character.\<close>

fun py_slice12 :: "json \<Rightarrow> exn + json list" where
  "py_slice12 (JList xs) = Inr (take 12 xs)"
| "py_slice12 (JStr cs) = Inr (map (\<lambda>c. JStr [c]) (take 12 cs))"
| "py_slice12 _ = Inl TypeError"

text \<open>The body of the loop of \<open>format_forecast\<close>: the line of one item.\<close>

definition forecast_entry :: "pyrt \<Rightarrow> json \<Rightarrow> json \<Rightarrow> exn + pystr" where
  "forecast_entry rt tz_offset item =
     bind (py_item item (lit ''dt'')) (\<lambda>ts.
     bind (py_item item (lit ''main'')) (\<lambda>main.
     bind (bind (py_item item (lit ''weather'')) py_item0) (\<lambda>weather.
     bind (py_get item (lit ''wind'') (JDict [])) (\<lambda>wind.
     bind (bind (py_item weather (lit ''main'')) (call_icon_for rt)) (\<lambda>icon.
     bind (fmt_time rt ts tz_offset) (\<lambda>time.
     bind (bind (py_item weather (lit ''description'')) (py_title rt)) (\<lambda>description.
     bind (bind (py_item main (lit ''temp'')) (py_format_f 0)) (\<lambda>temp.
     bind (py_get wind (lit ''speed'') (JInt 0)) (\<lambda>speed.
     Inr (time @ lit '' '' @ [0x2013] @ lit '' '' @ icon @ lit '' '' @ description @ lit '', ''
          @ temp @ degree @ lit ''C, wind '' @ py_str rt speed @ lit '' m/s''))))))))))"

fun forecast_entries :: "pyrt \<Rightarrow> json \<Rightarrow> json list \<Rightarrow> exn + pystr list" where
  "forecast_entries rt tz_offset [] = Inr []"
| "forecast_entries rt tz_offset (item # items) =
     bind (forecast_entry rt tz_offset item) (\<lambda>line.
     bind (forecast_entries rt tz_offset items) (\<lambda>lines. Inr (line # lines)))"

definition format_forecast :: "pyrt \<Rightarrow> json \<Rightarrow> exn + pystr" where
  "format_forecast rt data =
     bind (bind (py_get data (lit ''city'') (JDict []))
             (\<lambda>c. py_get c (lit ''name'') (JStr (lit ''location'')))) (\<lambda>city.
     bind (bind (py_get data (lit ''city'') (JDict []))
             (\<lambda>c. py_get c (lit ''country'') (JStr []))) (\<lambda>country.
     bind (bind (py_get data (lit ''city'') (JDict []))
             (\<lambda>c. py_get c (lit ''timezone'') (JInt 0))) (\<lambda>tz_offset.
     bind (country_suffix country) (\<lambda>suffix.
     bind (bind (py_get data (lit ''list'') (JList [])) py_slice12) (\<lambda>items.
     bind (forecast_entries rt tz_offset items) (\<lambda>entries.
     Inr ([0x1F4C5] @ lit '' *Next 36 hours for '' @ py_str rt city @ suffix @ lit ''*''
          @ newline @ join newline (map (\<lambda>line. bullet @ lit '' '' @ line) entries))))))))"

section \<open>The weather provider and the chat\<close>

text \<open>
  What a handler does to the outside, in the order it does it: the GET requests it
  sends (URL and query parameters), the replies it sends to the chat and the errors it
  logs with \<open>logger.exception\<close>.
\<close>

datatype event =
    HttpGet pystr "(pystr \<times> json) list"
  | ReplyText pystr
  | ReplyMarkdown pystr
  | LogException pystr exn

text \<open>
  What \<open>requests.get\<close> comes back with: no response at all (a connection error or
  the timeout of 12 seconds), or a response with a status code and a body that parses
  as JSON or does not.
\<close>

datatype http_outcome = NoResponse | Response int "json option"

text \<open>
  The environment of a handler: the API key read at startup, the provider's answer to
  each request, and whether the chat platform accepts a reply, given what has happened
  so far.
\<close>

record world =
  api_key :: pystr
  http_get :: "pystr \<Rightarrow> (pystr \<times> json) list \<Rightarrow> http_outcome"
  send_ok :: "event list \<Rightarrow> event \<Rightarrow> bool"

text \<open>A step of a handler takes the events so far and returns a value or a raised
  exception, with the events extended.\<close>

type_synonym 'a io = "event list \<Rightarrow> (exn + 'a) \<times> event list"

definition io_return :: "'a \<Rightarrow> 'a io" where
  "io_return x = (\<lambda>tr. (Inr x, tr))"

definition io_raise :: "exn \<Rightarrow> 'a io" where
  "io_raise e = (\<lambda>tr. (Inl e, tr))"

definition io_lift :: "exn + 'a \<Rightarrow> 'a io" where
  "io_lift r = (\<lambda>tr. (r, tr))"

definition io_bind :: "'a io \<Rightarrow> ('a \<Rightarrow> 'b io) \<Rightarrow> 'b io" where
  "io_bind m f = (\<lambda>tr. case m tr of (Inl e, tr') \<Rightarrow> (Inl e, tr') | (Inr x, tr') \<Rightarrow> f x tr')"

text \<open>\<open>try: m except ...: h\<close>, with \<open>h\<close> deciding on the exception.\<close>

definition io_try :: "'a io \<Rightarrow> (exn \<Rightarrow> 'a io) \<Rightarrow> 'a io" where
  "io_try m h = (\<lambda>tr. case m tr of (Inl e, tr') \<Rightarrow> h e tr' | (Inr x, tr') \<Rightarrow> (Inr x, tr'))"

definition log_exception :: "pystr \<Rightarrow> exn \<Rightarrow> unit io" where
  "log_exception msg e = (\<lambda>tr. (Inr (), tr @ [LogException msg e]))"

definition send :: "world \<Rightarrow> event \<Rightarrow> unit io" where
  "send w ev = (\<lambda>tr. (if send_ok w tr ev then Inr () else Inl TelegramError, tr @ [ev]))"

definition reply_text :: "world \<Rightarrow> pystr \<Rightarrow> unit io" where
  "reply_text w text = send w (ReplyText text)"

definition reply_markdown :: "world \<Rightarrow> pystr \<Rightarrow> unit io" where
  "reply_markdown w text = send w (ReplyMarkdown text)"

text \<open>
  The three lines the fetching functions share: \<open>requests.get\<close>, then
  \<open>raise_for_status\<close>, which raises on a status from 400 to 599, then \<open>r.json()\<close>.
\<close>

definition fetch_json :: "world \<Rightarrow> pystr \<Rightarrow> (pystr \<times> json) list \<Rightarrow> json io" where
  "fetch_json w url params = (\<lambda>tr.
     let tr' = tr @ [HttpGet url params] in
     case http_get w url params of
       NoResponse \<Rightarrow> (Inl RequestException, tr')
     | Response status body \<Rightarrow>
         if 400 \<le> status \<and> status < 600 then (Inl (HTTPError status), tr')
         else (case body of None \<Rightarrow> (Inl JSONDecodeError, tr') | Some j \<Rightarrow> (Inr j, tr')))"

definition weather_url :: pystr where
  "weather_url = lit ''https://api.openweathermap.org/data/2.5/weather''"

definition forecast_url :: pystr where
  "forecast_url = lit ''https://api.openweathermap.org/data/2.5/forecast''"

definition get_current_by_city :: "world \<Rightarrow> pystr \<Rightarrow> pystr \<Rightarrow> json io" where
  "get_current_by_city w city units =
     fetch_json w weather_url
       [(lit ''q'', JStr city), (lit ''appid'', JStr (api_key w)), (lit ''units'', JStr units)]"

definition get_current_by_coords :: "world \<Rightarrow> json \<Rightarrow> json \<Rightarrow> pystr \<Rightarrow> json io" where
  "get_current_by_coords w lat lon units =
     fetch_json w weather_url
       [(lit ''lat'', lat), (lit ''lon'', lon), (lit ''appid'', JStr (api_key w)),
        (lit ''units'', JStr units)]"

definition get_forecast_by_coords :: "world \<Rightarrow> json \<Rightarrow> json \<Rightarrow> pystr \<Rightarrow> json io" where
  "get_forecast_by_coords w lat lon units =
     fetch_json w forecast_url
       [(lit ''lat'', lat), (lit ''lon'', lon), (lit ''appid'', JStr (api_key w)),
        (lit ''units'', JStr units), (lit ''cnt'', JInt 12)]"

section \<open>The handlers\<close>

definition usage_text :: pystr where
  "usage_text = lit ''Usage: /weather <city name>'' @ newline
     @ lit ''Example: /weather Singapore''"

definition city_not_found_text :: pystr where
  "city_not_found_text = lit ''City not found. Try a different name or share your location.''"

definition http_error_text :: pystr where
  "http_error_text = lit ''Sorry, I couldn't fetch the weather right now.''"

definition unexpected_error_text :: pystr where
  "unexpected_error_text = lit ''Something went wrong. Please try again later.''"

definition location_error_text :: pystr where
  "location_error_text = lit ''Couldn't fetch weather for that location. Try again.''"

text \<open>The body of the \<open>try\<close> of \<open>weather_cmd\<close>.\<close>

definition weather_try :: "pyrt \<Rightarrow> world \<Rightarrow> pystr \<Rightarrow> unit io" where
  "weather_try rt w city =
     io_bind (get_current_by_city w city (lit ''metric'')) (\<lambda>current.
     io_bind (io_lift (bind (py_item current (lit ''coord'')) (\<lambda>c. py_item c (lit ''lat'')))) (\<lambda>lat.
     io_bind (io_lift (bind (py_item current (lit ''coord'')) (\<lambda>c. py_item c (lit ''lon'')))) (\<lambda>lon.
     io_bind (get_forecast_by_coords w lat lon (lit ''metric'')) (\<lambda>forecast.
     io_bind (io_lift (format_current_weather rt current)) (\<lambda>current_text.
     io_bind (io_lift (format_forecast rt forecast)) (\<lambda>forecast_text.
     io_bind (reply_markdown w current_text) (\<lambda>_.
     reply_markdown w forecast_text)))))))"

text \<open>The two \<open>except\<close> clauses of \<open>weather_cmd\<close>: \<open>requests.HTTPError\<close> first, then
  every other \<open>Exception\<close>.\<close>

definition weather_except :: "world \<Rightarrow> exn \<Rightarrow> unit io" where
  "weather_except w e =
     (case e of
        HTTPError status \<Rightarrow>
          if status = 404 then reply_text w city_not_found_text
          else io_bind (log_exception (lit ''HTTP error'') e) (\<lambda>_. reply_text w http_error_text)
      | _ \<Rightarrow>
          io_bind (log_exception (lit ''Unexpected error'') e)
            (\<lambda>_. reply_text w unexpected_error_text))"

text \<open>\<open>weather_cmd\<close>, with \<open>context.args\<close> as \<open>args\<close>.\<close>

definition weather_cmd :: "pyrt \<Rightarrow> world \<Rightarrow> pystr list \<Rightarrow> unit io" where
  "weather_cmd rt w args =
     (if args = [] then reply_text w usage_text
      else let city = join (lit '' '') args in
           io_try (weather_try rt w city) (weather_except w))"

definition location_try :: "pyrt \<Rightarrow> world \<Rightarrow> pyfloat \<Rightarrow> pyfloat \<Rightarrow> unit io" where
  "location_try rt w latitude longitude =
     io_bind (get_current_by_coords w (JFloat latitude) (JFloat longitude) (lit ''metric''))
       (\<lambda>current.
     io_bind (get_forecast_by_coords w (JFloat latitude) (JFloat longitude) (lit ''metric''))
       (\<lambda>forecast.
     io_bind (io_lift (format_current_weather rt current)) (\<lambda>current_text.
     io_bind (io_lift (format_forecast rt forecast)) (\<lambda>forecast_text.
     io_bind (reply_markdown w current_text) (\<lambda>_.
     reply_markdown w forecast_text)))))"

text \<open>\<open>handle_location\<close>, with \<open>update.message.location\<close> as the two coordinates.\<close>

definition handle_location :: "pyrt \<Rightarrow> world \<Rightarrow> pyfloat \<Rightarrow> pyfloat \<Rightarrow> unit io" where
  "handle_location rt w latitude longitude =
     io_try (location_try rt w latitude longitude)
       (\<lambda>e. io_bind (log_exception (lit ''Location handling error'') e)
               (\<lambda>_. reply_text w location_error_text))"

text \<open>The events of a handler that starts with none.\<close>

definition events_of :: "unit io \<Rightarrow> event list" where
  "events_of m = snd (m [])"

text \<open>Whether the first \<open>except\<close> clause of \<open>weather_cmd\<close>, for
  \<open>requests.HTTPError\<close>, takes the exception.\<close>

definition is_http_error :: "exn \<Rightarrow> bool" where
  "is_http_error e = (case e of HTTPError status \<Rightarrow> True | _ \<Rightarrow> False)"

text \<open>Sample environments: a provider that answers every request with 404, and one
  that knows the city but answers the forecast request with a given status.\<close>

definition world_all_404 :: world where
  "world_all_404 = \<lparr> api_key = lit ''key'', http_get = (\<lambda>url params. Response 404 None),
     send_ok = (\<lambda>tr ev. True) \<rparr>"

definition coord_body :: json where
  "coord_body = JDict [(lit ''coord'', JDict [(lit ''lat'', JInt 1), (lit ''lon'', JInt 2)])]"

definition world_forecast :: "int \<Rightarrow> world" where
  "world_forecast status = \<lparr> api_key = lit ''key'',
     http_get = (\<lambda>url params. if url = forecast_url then Response status None
                               else Response 200 (Some coord_body)),
     send_ok = (\<lambda>tr ev. True) \<rparr>"

text \<open>A runtime for running the model on inputs that are ASCII and hold no float where
  one is printed in full or read as a time: there its fields are never consulted.\<close>

definition plain_rt :: pyrt where
  "plain_rt = \<lparr> uc_lower = (\<lambda>pre c post. [c]), uc_title = (\<lambda>c. [c]),
     uc_cased = (\<lambda>c. False), float_repr = (\<lambda>f. []), str_repr = (\<lambda>cs. cs),
     timedelta_micros = (\<lambda>f. Inl ValueError), timestamp_micros = (\<lambda>f. Inl ValueError) \<rparr>"

section \<open>Properties of the string operations\<close>

lemma starts_with_iff: "starts_with ps cs \<longleftrightarrow> (\<exists>q. cs = ps @ q)"
  by (induction ps cs rule: starts_with.induct) auto

lemma contains_iff: "contains sub cs \<longleftrightarrow> (\<exists>p q. cs = p @ sub @ q)"
proof (induction cs)
  case Nil
  then show ?case by auto
next
  case (Cons c cs)
  show ?case
  proof
    assume "contains sub (c # cs)"
    then consider "starts_with sub (c # cs)" | "contains sub cs" by auto
    then show "\<exists>p q. c # cs = p @ sub @ q"
    proof cases
      case 1
      then obtain q where "c # cs = sub @ q" using starts_with_iff by blast
      then have "c # cs = [] @ sub @ q" by simp
      then show ?thesis by blast
    next
      case 2
      then obtain p q where "cs = p @ sub @ q" using Cons.IH by blast
      then have "c # cs = (c # p) @ sub @ q" by simp
      then show ?thesis by blast
    qed
  next
    assume "\<exists>p q. c # cs = p @ sub @ q"
    then obtain p q where pq: "c # cs = p @ sub @ q" by blast
    show "contains sub (c # cs)"
    proof (cases p)
      case Nil
      with pq have "starts_with sub (c # cs)" using starts_with_iff by auto
      then show ?thesis by simp
    next
      case (Cons a p')
      with pq have "cs = p' @ sub @ q" by simp
      then have "contains sub cs" using Cons.IH by blast
      then show ?thesis by simp
    qed
  qed
qed

lemma lower_from_ascii:
  "list_all (\<lambda>c. c < 128) t \<Longrightarrow>
   lower_from rt pre (t @ q) = map ascii_lower t @ lower_from rt (pre @ t) q"
  by (induction t arbitrary: pre) (simp_all add: lower_cp_def)

lemma lower_from_segment:
  "list_all (\<lambda>c. c < 128) t \<Longrightarrow>
   \<exists>a b. lower_from rt pre (p @ t @ q) = a @ map ascii_lower t @ b"
proof (induction p arbitrary: pre)
  case Nil
  then show ?case using lower_from_ascii [of t rt pre q] by auto
next
  case (Cons x p)
  from Cons.IH [OF Cons.prems, of "pre @ [x]"]
  obtain a b where "lower_from rt (pre @ [x]) (p @ t @ q) = a @ map ascii_lower t @ b"
    by blast
  then have "lower_from rt pre ((x # p) @ t @ q)
             = (lower_cp rt pre x (p @ t @ q) @ a) @ map ascii_lower t @ b"
    by simp
  then show ?case by blast
qed

lemma contains_any_case_lower:
  "contains_any_case kw cs \<Longrightarrow> contains kw (lower rt cs)"
  unfolding contains_any_case_def lower_def contains_iff
  using lower_from_segment by metis


section \<open>The icon table\<close>

lemma icon_for_is_lookup: "icon_for rt c = icon_lookup rt c"
  by (simp add: icon_for_def icon_lookup_def icon_table_def Let_def)

text \<open>
  Claim C3. For every category string, \<open>icon_for\<close> is the first-match lookup of the
  lowered category in the ordered table thunder, drizzle, rain, snow, clear, cloud,
  mist/fog/haze/smoke, with the thermometer as fallback. In particular a category that
  contains "rain" in any case gets the rain icon unless its lowered form contains
  "thunder" or "drizzle"; with "thunder" it gets the thunder icon, and with "drizzle"
  but not "thunder" the drizzle icon.
\<close>

theorem icon_for_table:
  "icon_for rt c = icon_lookup rt c
   \<and> (contains_any_case (lit ''rain'') c \<longrightarrow>
        icon_for rt c =
          (if contains (lit ''thunder'') (lower rt c) then icon_thunder
           else if contains (lit ''drizzle'') (lower rt c) then icon_drizzle
           else icon_rain))"
proof (intro conjI impI)
  show "icon_for rt c = icon_lookup rt c" by (rule icon_for_is_lookup)
next
  assume "contains_any_case (lit ''rain'') c"
  then have "contains (lit ''rain'') (lower rt c)" by (rule contains_any_case_lower)
  then show "icon_for rt c =
          (if contains (lit ''thunder'') (lower rt c) then icon_thunder
           else if contains (lit ''drizzle'') (lower rt c) then icon_drizzle
           else icon_rain)"
    by (simp add: icon_for_def Let_def)
qed


theorem icon_for_table_witness:
  "contains_any_case (lit ''rain'') (lit ''Light RAIN'')
   \<and> icon_for plain_rt (lit ''Light RAIN'') = icon_rain"
proof -
  have "lit ''Light RAIN'' = lit ''Light '' @ lit ''RAIN'' @ []"
    by (simp add: lit_def)
  moreover have "list_all (\<lambda>c. c < 128) (lit ''RAIN'')"
    by (simp add: lit_def)
  moreover have "map ascii_lower (lit ''RAIN'') = lit ''rain''"
    by (simp add: lit_def ascii_lower_def)
  ultimately have h: "contains_any_case (lit ''rain'') (lit ''Light RAIN'')"
    unfolding contains_any_case_def by blast
  have l: "lower plain_rt (lit ''Light RAIN'') = lit ''light rain''"
    by (simp add: lower_def lower_cp_def lit_def ascii_lower_def)
  have t: "\<not> contains (lit ''thunder'') (lit ''light rain'')"
    by (simp add: lit_def)
  have d: "\<not> contains (lit ''drizzle'') (lit ''light rain'')"
    by (simp add: lit_def)
  have "icon_for plain_rt (lit ''Light RAIN'') =
          (if contains (lit ''thunder'') (lower plain_rt (lit ''Light RAIN'')) then icon_thunder
           else if contains (lit ''drizzle'') (lower plain_rt (lit ''Light RAIN''))
                then icon_drizzle else icon_rain)"
    using h icon_for_table [of plain_rt "lit ''Light RAIN''"] by blast
  then show ?thesis using h l t d by simp
qed

section \<open>The city-weather handler\<close>

lemma io_simps:
  "io_return x tr = (Inr x, tr)"
  "io_raise e tr = (Inl e, tr)"
  "io_lift r tr = (r, tr)"
  "io_bind m f tr = (case m tr of (Inl e, tr') \<Rightarrow> (Inl e, tr') | (Inr x, tr') \<Rightarrow> f x tr')"
  "io_try m h tr = (case m tr of (Inl e, tr') \<Rightarrow> h e tr' | (Inr x, tr') \<Rightarrow> (Inr x, tr'))"
  "log_exception msg e tr = (Inr (), tr @ [LogException msg e])"
  "send w ev tr = (if send_ok w tr ev then Inr () else Inl TelegramError, tr @ [ev])"
  by (simp_all add: io_return_def io_raise_def io_lift_def io_bind_def io_try_def
      log_exception_def send_def)

lemma fetch_json_error:
  "http_get w url params = Response status body \<Longrightarrow> 400 \<le> status \<Longrightarrow> status < 600 \<Longrightarrow>
   fetch_json w url params tr = (Inl (HTTPError status), tr @ [HttpGet url params])"
  by (simp add: fetch_json_def)

text \<open>
  Claim C4. With no city argument the handler replies with the usage message and does
  nothing else: no request is sent.
\<close>

theorem weather_cmd_no_args:
  "events_of (weather_cmd rt w []) = [ReplyText usage_text]"
  by (simp add: events_of_def weather_cmd_def reply_text_def io_simps)

text \<open>
  Claim C1. For every city, when the provider answers the current-conditions request
  with status 404, the handler sends that one request, then the "city not found"
  message, and nothing else: no forecast request is sent.
\<close>

theorem weather_cmd_city_not_found:
  assumes "args \<noteq> []"
    and "http_get w weather_url
           [(lit ''q'', JStr (join (lit '' '') args)), (lit ''appid'', JStr (api_key w)),
            (lit ''units'', JStr (lit ''metric''))] = Response 404 body"
  shows "events_of (weather_cmd rt w args) =
           [HttpGet weather_url
              [(lit ''q'', JStr (join (lit '' '') args)), (lit ''appid'', JStr (api_key w)),
               (lit ''units'', JStr (lit ''metric''))],
            ReplyText city_not_found_text]"
  using assms
  by (simp add: events_of_def weather_cmd_def weather_try_def weather_except_def
      get_current_by_city_def fetch_json_error reply_text_def io_simps)

theorem weather_cmd_city_not_found_witness:
  "[lit ''Atlantis''] \<noteq> []
   \<and> http_get world_all_404 weather_url
        [(lit ''q'', JStr (join (lit '' '') [lit ''Atlantis''])),
         (lit ''appid'', JStr (api_key world_all_404)),
         (lit ''units'', JStr (lit ''metric''))] = Response 404 None
   \<and> events_of (weather_cmd plain_rt world_all_404 [lit ''Atlantis'']) =
        [HttpGet weather_url
           [(lit ''q'', JStr (lit ''Atlantis'')), (lit ''appid'', JStr (lit ''key'')),
            (lit ''units'', JStr (lit ''metric''))],
         ReplyText city_not_found_text]"
proof -
  have h: "http_get world_all_404 weather_url
        [(lit ''q'', JStr (join (lit '' '') [lit ''Atlantis''])),
         (lit ''appid'', JStr (api_key world_all_404)),
         (lit ''units'', JStr (lit ''metric''))] = Response 404 None"
    by (simp add: world_all_404_def)
  show ?thesis
    using h weather_cmd_city_not_found [of "[lit ''Atlantis'']" world_all_404 None plain_rt]
    by (simp add: world_all_404_def)
qed

section \<open>Errors in the handlers\<close>

lemma urls_differ: "weather_url \<noteq> forecast_url"
  by (simp add: weather_url_def forecast_url_def lit_def)

lemma weather_try_forecast_error:
  "400 \<le> status \<Longrightarrow> status < 600 \<Longrightarrow>
   weather_try rt (world_forecast status) city [] =
     (Inl (HTTPError status),
      [HttpGet weather_url
         [(lit ''q'', JStr city), (lit ''appid'', JStr (lit ''key'')),
          (lit ''units'', JStr (lit ''metric''))],
       HttpGet forecast_url
         [(lit ''lat'', JInt 1), (lit ''lon'', JInt 2), (lit ''appid'', JStr (lit ''key'')),
          (lit ''units'', JStr (lit ''metric'')), (lit ''cnt'', JInt 12)]])"
  by (simp add: weather_try_def get_current_by_city_def get_forecast_by_coords_def
      fetch_json_def world_forecast_def urls_differ coord_body_def bind_def io_simps Let_def
      lit_def)

text \<open>
  Claim C2 as stated fails: a 404 raised by the forecast request, after a successful
  lookup, is answered with the "city not found" message and nothing is logged.
\<close>

theorem forecast_404_reply:
  "events_of (weather_cmd plain_rt (world_forecast 404) [lit ''Paris'']) =
     [HttpGet weather_url
        [(lit ''q'', JStr (lit ''Paris'')), (lit ''appid'', JStr (lit ''key'')),
         (lit ''units'', JStr (lit ''metric''))],
      HttpGet forecast_url
        [(lit ''lat'', JInt 1), (lit ''lon'', JInt 2), (lit ''appid'', JStr (lit ''key'')),
         (lit ''units'', JStr (lit ''metric'')), (lit ''cnt'', JInt 12)],
      ReplyText city_not_found_text]"
proof -
  have "send_ok (world_forecast 404) tr ev" for tr ev
    by (simp add: world_forecast_def)
  then show ?thesis
    by (simp add: events_of_def weather_cmd_def weather_try_forecast_error weather_except_def
        reply_text_def io_simps)
qed

text \<open>
  Claim C2, amended. When the \<open>try\<close> block of the city-weather handler raises an error
  other than an HTTP 404 (whichever of the two requests or later steps raised it), the
  handler logs the error and replies with a fixed generic text: one for the other HTTP
  statuses, one for every other error. An HTTP 404 from either request gets the "city
  not found" reply. The location handler logs and replies with its generic text for
  every error. The replies are fixed texts, so the error's detail only reaches the log.
\<close>

theorem weather_errors_reply:
  "(args \<noteq> [] \<and> weather_try rt w (join (lit '' '') args) [] = (Inl e, tr) \<longrightarrow>
      events_of (weather_cmd rt w args) =
        tr @ (if e = HTTPError 404 then [ReplyText city_not_found_text]
              else if is_http_error e
                then [LogException (lit ''HTTP error'') e, ReplyText http_error_text]
                else [LogException (lit ''Unexpected error'') e,
                      ReplyText unexpected_error_text]))
   \<and> (location_try rt w latitude longitude [] = (Inl e', tr') \<longrightarrow>
      events_of (handle_location rt w latitude longitude) =
        tr' @ [LogException (lit ''Location handling error'') e',
               ReplyText location_error_text])"
  by (cases e)
     (auto simp add: events_of_def weather_cmd_def weather_except_def handle_location_def
      is_http_error_def reply_text_def io_simps)

theorem weather_errors_reply_witness:
  "[lit ''Paris''] \<noteq> []
   \<and> weather_try plain_rt (world_forecast 500) (join (lit '' '') [lit ''Paris'']) [] =
       (Inl (HTTPError 500),
        [HttpGet weather_url
           [(lit ''q'', JStr (lit ''Paris'')), (lit ''appid'', JStr (lit ''key'')),
            (lit ''units'', JStr (lit ''metric''))],
         HttpGet forecast_url
           [(lit ''lat'', JInt 1), (lit ''lon'', JInt 2), (lit ''appid'', JStr (lit ''key'')),
            (lit ''units'', JStr (lit ''metric'')), (lit ''cnt'', JInt 12)]])
   \<and> events_of (weather_cmd plain_rt (world_forecast 500) [lit ''Paris'']) =
       [HttpGet weather_url
          [(lit ''q'', JStr (lit ''Paris'')), (lit ''appid'', JStr (lit ''key'')),
           (lit ''units'', JStr (lit ''metric''))],
        HttpGet forecast_url
          [(lit ''lat'', JInt 1), (lit ''lon'', JInt 2), (lit ''appid'', JStr (lit ''key'')),
           (lit ''units'', JStr (lit ''metric'')), (lit ''cnt'', JInt 12)],
        LogException (lit ''HTTP error'') (HTTPError 500),
        ReplyText http_error_text]
   \<and> location_try plain_rt world_all_404 (Fin False 1 0) (Fin False 2 0) [] =
       (Inl (HTTPError 404),
        [HttpGet weather_url
           [(lit ''lat'', JFloat (Fin False 1 0)), (lit ''lon'', JFloat (Fin False 2 0)),
            (lit ''appid'', JStr (lit ''key'')), (lit ''units'', JStr (lit ''metric''))]])
   \<and> events_of (handle_location plain_rt world_all_404 (Fin False 1 0) (Fin False 2 0)) =
       [HttpGet weather_url
          [(lit ''lat'', JFloat (Fin False 1 0)), (lit ''lon'', JFloat (Fin False 2 0)),
           (lit ''appid'', JStr (lit ''key'')), (lit ''units'', JStr (lit ''metric''))],
        LogException (lit ''Location handling error'') (HTTPError 404),
        ReplyText location_error_text]"
proof -
  have a: "weather_try plain_rt (world_forecast 500) (join (lit '' '') [lit ''Paris'']) [] =
       (Inl (HTTPError 500),
        [HttpGet weather_url
           [(lit ''q'', JStr (lit ''Paris'')), (lit ''appid'', JStr (lit ''key'')),
            (lit ''units'', JStr (lit ''metric''))],
         HttpGet forecast_url
           [(lit ''lat'', JInt 1), (lit ''lon'', JInt 2), (lit ''appid'', JStr (lit ''key'')),
            (lit ''units'', JStr (lit ''metric'')), (lit ''cnt'', JInt 12)]])"
    by (simp add: weather_try_forecast_error)
  have b: "location_try plain_rt world_all_404 (Fin False 1 0) (Fin False 2 0) [] =
       (Inl (HTTPError 404),
        [HttpGet weather_url
           [(lit ''lat'', JFloat (Fin False 1 0)), (lit ''lon'', JFloat (Fin False 2 0)),
            (lit ''appid'', JStr (lit ''key'')), (lit ''units'', JStr (lit ''metric''))]])"
    by (simp add: location_try_def get_current_by_coords_def fetch_json_def
        world_all_404_def io_simps)
  show ?thesis
    using a b
      weather_errors_reply [where args = "[lit ''Paris'']" and rt = plain_rt
        and w = "world_forecast 500" and e = "HTTPError 500"]
      weather_errors_reply [where rt = plain_rt and w = world_all_404
        and latitude = "Fin False 1 0" and longitude = "Fin False 2 0"
        and e' = "HTTPError 404"]
    by (simp add: is_http_error_def)
qed

end
